theory Spec2Isabelle
  imports Main "HOL-Library.Word"
begin

section \<open>The binary embedder \<open>cmake/embed_bin.py\<close>\<close>

text \<open>
  The script reads a binary file and writes a C++ source text that declares the bytes as
  an array, followed by a constant holding the number of bytes. This theory embeds the
  script as HOL functions: the text primitives of Python it relies on, the open file as
  the log of the strings written to it, the file system as a map from paths to nodes,
  and the script body as a function from the argument vector and the file system to the
  outcome of the run.
\<close>

subsection \<open>Python primitives\<close>

type_synonym byte = "8 word"

text \<open>
  Iterating over a \<open>bytes\<close> object yields integers between 0 and 255; \<open>unat\<close> reads a
  byte as that integer. \<open>str\<close> of a non-negative integer (and the \<open>%d\<close> conversion) is
  its decimal numeral, without sign and without leading zeros.
\<close>

definition digit_char :: "nat \<Rightarrow> char" where
  "digit_char d = char_of (48 + d)"

fun str :: "nat \<Rightarrow> string" where
  "str n = (if n < 10 then [digit_char n] else str (n div 10) @ [digit_char (n mod 10)])"

declare str.simps [simp del]

subsection \<open>The open output file\<close>

text \<open>
  An open text file is represented by the log of the strings passed to \<open>f.write\<close>, oldest
  first. The log records the calls of the script, not the moments at which the buffer of
  the interpreter reaches the file: the file receives its content, the concatenation of
  the log, when it is closed.
\<close>

type_synonym handle = "string list"

definition f_write :: "handle \<Rightarrow> string \<Rightarrow> handle" where
  "f_write f s = f @ [s]"

definition text_of :: "handle \<Rightarrow> string" where
  "text_of f = concat f"

subsection \<open>The body of the \<open>with open(out_path, 'w')\<close> block\<close>

text \<open>
  One iteration of \<open>for i, b in enumerate(data)\<close>, with \<open>n = len(data)\<close>. The comparison
  \<open>i != len(data) - 1\<close> is on Python integers, hence on \<open>int\<close> here.
\<close>

definition loop_body :: "nat \<Rightarrow> handle \<Rightarrow> nat \<times> byte \<Rightarrow> handle" where
  "loop_body n f ib =
     (case ib of (i, b) \<Rightarrow>
        let f1 = (if i mod 12 = 0 then f_write f ''    '' else f);
            f2 = f_write f1 (str (unat b));
            f3 = (if int i \<noteq> int n - 1 then f_write f2 '','' else f2);
            f4 = (if i mod 12 \<noteq> 11 then f_write f3 '' '' else f3);
            f5 = (if i mod 12 = 11 then f_write f4 ''\<newline>'' else f4)
        in f5)"

definition emit :: "string \<Rightarrow> byte list \<Rightarrow> handle \<Rightarrow> handle" where
  "emit var_name data f =
     (let f1 = f_write f ''#include <cstddef>\<newline>'';
          f2 = f_write f1 (''extern const unsigned char '' @ var_name @ ''[] = {\<newline>'');
          f3 = foldl (loop_body (length data)) f2 (enumerate 0 data);
          f4 = f_write f3 ''\<newline>};\<newline>'';
          size_var = var_name @ ''_len'';
          f5 = f_write f4 (''extern const std::size_t '' @ size_var @ '' = ''
                           @ str (length data) @ '';\<newline>'')
      in f5)"

text \<open>The text generated for a symbol name and an input: what the block leaves in a fresh file.\<close>

definition generated :: "string \<Rightarrow> byte list \<Rightarrow> string" where
  "generated var_name data = text_of (emit var_name data [])"

subsection \<open>The file system\<close>

type_synonym path = string

datatype node = File (readable: bool) (writable: bool) (content: "byte list") | Directory

record world =
  nodes :: "path \<rightharpoonup> node"
  creatable :: "path \<Rightarrow> bool"

datatype os_error = FileNotFoundError | PermissionError | IsADirectoryError

text \<open>
  \<open>open(p, 'rb')\<close> followed by \<open>read()\<close>: the bytes of a readable regular file, an error
  otherwise. Nothing in the file system changes.
\<close>

definition open_rb :: "world \<Rightarrow> path \<Rightarrow> os_error + byte list" where
  "open_rb w p =
     (case nodes w p of
        None \<Rightarrow> Inl FileNotFoundError
      | Some Directory \<Rightarrow> Inl IsADirectoryError
      | Some (File r wr c) \<Rightarrow> if r then Inr c else Inl PermissionError)"

text \<open>
  \<open>open(p, 'w')\<close>: an existing writable file is truncated, a missing one is created
  empty where the directory allows it, anything else is an error.
\<close>

definition open_w :: "world \<Rightarrow> path \<Rightarrow> os_error + world" where
  "open_w w p =
     (case nodes w p of
        None \<Rightarrow> if creatable w p then Inr (w\<lparr>nodes := (nodes w)(p \<mapsto> File True True [])\<rparr>)
                else Inl FileNotFoundError
      | Some Directory \<Rightarrow> Inl IsADirectoryError
      | Some (File r wr c) \<Rightarrow>
          if wr then Inr (w\<lparr>nodes := (nodes w)(p \<mapsto> File r wr [])\<rparr>)
          else Inl PermissionError)"

text \<open>The bytes of a text: every character of a \<open>string\<close> is one byte.\<close>

definition encode :: "string \<Rightarrow> byte list" where
  "encode s = map (\<lambda>c. of_nat (of_char c)) s"

text \<open>Leaving the \<open>with\<close> block closes the file: the text written to it is its content.\<close>

definition close :: "world \<Rightarrow> path \<Rightarrow> handle \<Rightarrow> world" where
  "close w p f =
     (case nodes w p of
        Some (File r wr c) \<Rightarrow> w\<lparr>nodes := (nodes w)(p \<mapsto> File r wr (c @ encode (text_of f)))\<rparr>
      | _ \<Rightarrow> w)"

subsection \<open>The script\<close>

datatype mode = RB | W

datatype outcome = Exited int | Uncaught os_error

record run =
  outcome :: outcome
  err_stream :: string
  opened :: "(path \<times> mode) list"
  written :: handle
  after :: world

definition usage :: string where
  "usage = ''Usage: embed_bin.py <input> <varname> <output>\<newline>''"

text \<open>
  The whole script on the argument vector \<open>sys.argv\<close> (the script's own name first) and
  the file system. \<open>sys.exit(2)\<close> ends the run with status 2; an exception of \<open>open\<close> is
  not caught and ends the run; reaching the end of the script is status 0. The field
  \<open>err_stream\<close> is what the script prints to \<open>sys.stderr\<close>, \<open>opened\<close> lists the calls of
  \<open>open\<close> in order, and \<open>written\<close> is the log of the output file.
\<close>

definition main :: "string list \<Rightarrow> world \<Rightarrow> run" where
  "main argv w =
     (if length argv < 4 then
        \<lparr>outcome = Exited 2, err_stream = usage, opened = [], written = [], after = w\<rparr>
      else
        let in_path = argv ! 1;
            var_name = argv ! 2;
            out_path = argv ! 3
        in case open_rb w in_path of
             Inl e \<Rightarrow>
               \<lparr>outcome = Uncaught e, err_stream = [], opened = [(in_path, RB)],
                written = [], after = w\<rparr>
           | Inr data \<Rightarrow>
               (case open_w w out_path of
                  Inl e \<Rightarrow>
                    \<lparr>outcome = Uncaught e, err_stream = [],
                     opened = [(in_path, RB), (out_path, W)], written = [], after = w\<rparr>
                | Inr w1 \<Rightarrow>
                    let f = emit var_name data []
                    in \<lparr>outcome = Exited 0, err_stream = [],
                        opened = [(in_path, RB), (out_path, W)], written = f,
                        after = close w1 out_path f\<rparr>))"

subsection \<open>Reading the generated text back\<close>

text \<open>
  The reader of the round trip: the text between the first opening brace and the next
  closing brace, and the decimal literals (maximal runs of digits) in a text, in order.
\<close>

definition is_digit :: "char \<Rightarrow> bool" where
  "is_digit c = (48 \<le> (of_char c :: nat) \<and> (of_char c :: nat) \<le> 57)"

definition digit_val :: "char \<Rightarrow> nat" where
  "digit_val c = of_char c - 48"

fun literals_from :: "nat option \<Rightarrow> string \<Rightarrow> nat list" where
  "literals_from None [] = []"
| "literals_from (Some v) [] = [v]"
| "literals_from None (c # cs) =
     (if is_digit c then literals_from (Some (digit_val c)) cs else literals_from None cs)"
| "literals_from (Some v) (c # cs) =
     (if is_digit c then literals_from (Some (10 * v + digit_val c)) cs
      else v # literals_from None cs)"

definition decimal_literals :: "string \<Rightarrow> nat list" where
  "decimal_literals s = literals_from None s"

definition initializer_text :: "string \<Rightarrow> string" where
  "initializer_text t =
     takeWhile (\<lambda>c. c \<noteq> CHR ''}'') (drop 1 (dropWhile (\<lambda>c. c \<noteq> CHR ''{'') t))"

definition parse_array :: "string \<Rightarrow> byte list" where
  "parse_array t = map of_nat (decimal_literals (initializer_text t))"

subsection \<open>Closed forms used in the proofs\<close>

text \<open>
  What one iteration of the loop appends for the value at index \<open>i\<close> of \<open>n\<close>: the indentation
  written when \<open>i % 12 == 0\<close>, the decimal numeral, and the comma, space or newline after it.
\<close>

definition indent_before :: "nat \<Rightarrow> string" where
  "indent_before i = (if i mod 12 = 0 then ''    '' else [])"

definition separator_after :: "nat \<Rightarrow> nat \<Rightarrow> string" where
  "separator_after n i =
     (if Suc i = n then [] else '','') @ (if i mod 12 = 11 then ''\<newline>'' else '' '')"

definition cell :: "nat \<Rightarrow> nat \<times> byte \<Rightarrow> string" where
  "cell n ib = (case ib of (i, b) \<Rightarrow> indent_before i @ str (unat b) @ separator_after n i)"

text \<open>The bytes of the regular file at a path, if there is one.\<close>

definition file_bytes :: "world \<Rightarrow> path \<Rightarrow> byte list option" where
  "file_bytes w p = (case nodes w p of Some (File r wr c) \<Rightarrow> Some c | _ \<Rightarrow> None)"

text \<open>A small file system on which the theorems below are instantiated.\<close>

definition sample_world :: world where
  "sample_world =
     \<lparr>nodes = [''in.bin'' \<mapsto> File True True [0, 255, 13],
               ''empty.bin'' \<mapsto> File True True [],
               ''locked.bin'' \<mapsto> File False True [1]],
      creatable = (\<lambda>p. True)\<rparr>"

section \<open>Properties\<close>

subsection \<open>The generated text in closed form\<close>

lemma text_of_f_write: "text_of (f_write f s) = text_of f @ s"
  by (simp add: text_of_def f_write_def)

lemma text_of_Nil: "text_of [] = []"
  by (simp add: text_of_def)

lemma text_of_loop_body: "text_of (loop_body n f ib) = text_of f @ cell n ib"
proof (cases ib)
  case (Pair i b)
  have "int i \<noteq> int n - 1 \<longleftrightarrow> Suc i \<noteq> n" by auto
  then show ?thesis
    by (simp add: Pair loop_body_def cell_def indent_before_def separator_after_def
        text_of_f_write Let_def)
qed

lemma text_of_loop:
  "text_of (foldl (loop_body n) f xs) = text_of f @ concat (map (cell n) xs)"
  by (induction xs arbitrary: f) (simp_all add: text_of_loop_body)

lemma generated_layout:
  "generated var_name data =
     ''#include <cstddef>\<newline>'' @ (''extern const unsigned char '' @ var_name @ ''[] = {\<newline>'')
     @ concat (map (cell (length data)) (enumerate 0 data))
     @ ''\<newline>};\<newline>''
     @ (''extern const std::size_t '' @ (var_name @ ''_len'') @ '' = '' @ str (length data) @ '';\<newline>'')"
  by (simp add: generated_def emit_def Let_def text_of_f_write text_of_loop text_of_Nil)

lemma digit_char_digit: "d < 10 \<Longrightarrow> is_digit (digit_char d)"
  by (simp add: is_digit_def digit_char_def)

lemma digit_val_digit_char: "d < 10 \<Longrightarrow> digit_val (digit_char d) = d"
  by (simp add: digit_val_def digit_char_def)

lemma str_digits: "c \<in> set (str n) \<Longrightarrow> is_digit c"
proof (induction n rule: str.induct)
  case (1 n)
  show ?case
  proof (cases "n < 10")
    case True
    with "1.prems" show ?thesis by (simp add: str.simps [of n] digit_char_digit)
  next
    case False
    with "1.prems" "1.IH" show ?thesis
      by (auto simp add: str.simps [of n] digit_char_digit)
  qed
qed

lemma literals_str: "literals_from None (str n @ rest) = literals_from (Some n) rest"
proof (induction n arbitrary: rest rule: str.induct)
  case (1 n)
  show ?case
  proof (cases "n < 10")
    case True
    then show ?thesis
      by (simp add: str.simps [of n] digit_char_digit digit_val_digit_char)
  next
    case False
    then have "literals_from None (str n @ rest)
        = literals_from (Some (n div 10)) (digit_char (n mod 10) # rest)"
      using "1.IH" [of "digit_char (n mod 10) # rest"] by (simp add: str.simps [of n])
    then show ?thesis
      by (simp add: digit_char_digit digit_val_digit_char)
  qed
qed

lemma not_digit_layout:
  "\<not> is_digit CHR '' ''" "\<not> is_digit CHR '',''" "\<not> is_digit CHR ''\<newline>''"
  "\<not> is_digit CHR ''}''" "\<not> is_digit CHR ''{''"
  by (simp_all add: is_digit_def)

lemma literals_cell:
  "literals_from None (cell n (i, b) @ rest) = unat b # literals_from None rest"
  by (simp add: cell_def indent_before_def separator_after_def not_digit_layout literals_str)

lemma literals_cells:
  "literals_from None (concat (map (cell n) xs) @ rest)
     = map (\<lambda>ib. unat (snd ib)) xs @ literals_from None rest"
proof (induction xs)
  case Nil
  show ?case by simp
next
  case (Cons ib xs)
  obtain i b where ib: "ib = (i, b)" by (cases ib)
  show ?case using Cons.IH by (simp add: ib literals_cell)
qed

lemma cell_no_brace: "c \<in> set (cell n ib) \<Longrightarrow> c \<noteq> CHR ''}''"
proof (cases ib)
  case (Pair i b)
  assume "c \<in> set (cell n ib)"
  then have "c \<in> set (str (unat b)) \<or> c \<in> {CHR '' '', CHR '','', CHR ''\<newline>''}"
    by (auto simp add: Pair cell_def indent_before_def separator_after_def split: if_splits)
  then show ?thesis
    using str_digits not_digit_layout(4) by auto
qed

lemma cells_no_brace: "c \<in> set (concat (map (cell n) xs)) \<Longrightarrow> c \<noteq> CHR ''}''"
  by (auto dest: cell_no_brace)

lemma initializer_text_generated:
  assumes "CHR ''{'' \<notin> set var_name"
  shows "initializer_text (generated var_name data)
           = ''\<newline>'' @ concat (map (cell (length data)) (enumerate 0 data)) @ ''\<newline>''"
proof -
  let ?cells = "concat (map (cell (length data)) (enumerate 0 data))"
  let ?tail = "''extern const std::size_t '' @ (var_name @ ''_len'') @ '' = ''
                 @ str (length data) @ '';\<newline>''"
  have skip: "dropWhile (\<lambda>c. c \<noteq> CHR ''{'') (var_name @ r) = dropWhile (\<lambda>c. c \<noteq> CHR ''{'') r" for r
    using assms by (intro dropWhile_append2) auto
  have "drop 1 (dropWhile (\<lambda>c. c \<noteq> CHR ''{'') (generated var_name data))
          = ''\<newline>'' @ ?cells @ ''\<newline>};\<newline>'' @ ?tail"
    by (simp add: generated_layout skip)
  moreover have "takeWhile (\<lambda>c. c \<noteq> CHR ''}'') (?cells @ ''\<newline>};\<newline>'' @ ?tail)
      = ?cells @ takeWhile (\<lambda>c. c \<noteq> CHR ''}'') (''\<newline>};\<newline>'' @ ?tail)"
    by (rule takeWhile_append2) (rule cells_no_brace)
  ultimately show ?thesis
    by (simp add: initializer_text_def)
qed

lemma unat_snd_enumerate: "map (\<lambda>ib. unat (snd ib)) (enumerate k data) = map unat data"
  by (induction data arbitrary: k) simp_all

lemma of_nat_unat_bytes: "map of_nat (map unat data) = (data :: byte list)"
  by (induction data) simp_all

lemma literals_initializer:
  assumes "CHR ''{'' \<notin> set var_name"
  shows "decimal_literals (initializer_text (generated var_name data)) = map unat data"
proof -
  have "decimal_literals (initializer_text (generated var_name data))
      = literals_from None (concat (map (cell (length data)) (enumerate 0 data)) @ ''\<newline>'')"
    by (simp add: decimal_literals_def initializer_text_generated [OF assms] not_digit_layout)
  also have "\<dots> = map (\<lambda>ib. unat (snd ib)) (enumerate 0 data) @ literals_from None ''\<newline>''"
    by (rule literals_cells)
  also have "\<dots> = map unat data"
    by (simp add: unat_snd_enumerate not_digit_layout)
  finally show ?thesis .
qed

lemma literals_of_str: "decimal_literals (str n) = [n]"
  using literals_str [of n "[]"] by (simp add: decimal_literals_def)

lemma str_0: "str 0 = ''0''"
  by code_simp

subsection \<open>The loop by index and successful runs\<close>

lemma enumerate_nth: "enumerate 0 xs = map (\<lambda>i. (i, xs ! i)) [0..<length xs]"
  by (rule nth_equalityI) (simp_all add: nth_enumerate_eq)

lemma str_no_newline: "CHR ''\<newline>'' \<notin> set (str n)"
  using str_digits [of "CHR ''\<newline>''" n] not_digit_layout(3) by blast

lemma open_w_file: "open_w w p = Inr w1 \<Longrightarrow> \<exists>r wr. nodes w1 p = Some (File r wr [])"
  by (auto simp add: open_w_def split: option.splits node.splits if_splits)

lemma file_bytes_close:
  "open_w w p = Inr w1 \<Longrightarrow> file_bytes (close w1 p f) p = Some (encode (text_of f))"
  by (auto simp add: file_bytes_def close_def dest!: open_w_file)

lemma main_success:
  assumes "outcome (main argv w) = Exited 0"
  shows "\<exists>data. open_rb w (argv ! 1) = Inr data
           \<and> written (main argv w) = emit (argv ! 2) data []
           \<and> file_bytes (after (main argv w)) (argv ! 3)
               = Some (encode (generated (argv ! 2) data))"
proof -
  from assms have len: "\<not> length argv < 4"
    by (auto simp add: main_def)
  from assms len obtain data where rd: "open_rb w (argv ! 1) = Inr data"
    by (cases "open_rb w (argv ! 1)") (auto simp add: main_def)
  from assms len rd obtain w1 where wr: "open_w w (argv ! 3) = Inr w1"
    by (cases "open_w w (argv ! 3)") (auto simp add: main_def)
  from len rd wr have "written (main argv w) = emit (argv ! 2) data []"
    and "after (main argv w) = close w1 (argv ! 3) (emit (argv ! 2) data [])"
    by (simp_all add: main_def Let_def)
  with rd wr show ?thesis
    by (simp add: file_bytes_close generated_def)
qed

subsection \<open>Round trip\<close>

text \<open>
  Claim C1. For every byte sequence, the empty one included, reading the decimal literals
  between the braces of the generated initializer, in textual order, gives back the byte
  sequence: as integers the literals are the values of the bytes, and as bytes they are
  the input. The reader finds the initializer at the first opening brace of the text, so
  the symbol name must not contain one (no identifier does).
\<close>

theorem roundtrip:
  assumes "CHR ''{'' \<notin> set var_name"
  shows "decimal_literals (initializer_text (generated var_name data)) = map unat data
       \<and> parse_array (generated var_name data) = data"
proof -
  have lits: "decimal_literals (initializer_text (generated var_name data)) = map unat data"
    using assms by (rule literals_initializer)
  show ?thesis
    by (simp only: parse_array_def lits of_nat_unat_bytes simp_thms)
qed

theorem roundtrip_witness:
  "CHR ''{'' \<notin> set ''foo''
   \<and> decimal_literals (initializer_text (generated ''foo'' [0, 255, 13])) = [0, 255, 13]
   \<and> parse_array (generated ''foo'' [0, 255, 13]) = [0, 255, 13]"
proof -
  have h: "CHR ''{'' \<notin> set ''foo''" by simp
  show ?thesis using h roundtrip [OF h, of "[0, 255, 13]"] by simp
qed

subsection \<open>The size constant\<close>

text \<open>
  Claim C2. For every input and every symbol name \<open>s\<close>, the generated text ends with the
  declaration of a constant named \<open>s_len\<close> whose value is the decimal numeral of the number
  of input bytes; read back, that numeral is the number of bytes.
\<close>

theorem size_constant:
  "(\<exists>pre. generated var_name data
       = pre @ ''extern const std::size_t '' @ (var_name @ ''_len'') @ '' = ''
           @ str (length data) @ '';\<newline>'')
   \<and> decimal_literals (str (length data)) = [length data]"
proof -
  have "\<exists>pre. generated var_name data
       = pre @ ''extern const std::size_t '' @ (var_name @ ''_len'') @ '' = ''
           @ str (length data) @ '';\<newline>''"
    unfolding generated_layout [of var_name data] append_assoc [symmetric]
    by (rule exI) (rule refl)
  then show ?thesis by (simp only: literals_of_str simp_thms)
qed

subsection \<open>Layout of the generated text\<close>

text \<open>
  Claim C3. For every input the generated text is the include line, the opening line of
  the array declaration, the values, the line \<open>};\<close> and the size declaration, where: every
  value is the decimal numeral of its byte; a value that starts a row of twelve is
  preceded by four spaces; every value but the last is followed by a comma; a value that
  ends a row of twelve is then followed by a newline and any other value by a space; a
  newline follows the values, so the last value is followed by a newline (after its space
  when it does not end a row) and never by a comma; the closing line is \<open>};\<close> and a
  newline; and the size declaration has no newline before the one that ends it, for a
  symbol name without a newline (every identifier).
\<close>

theorem formatting_contract:
  assumes "CHR ''\<newline>'' \<notin> set var_name"
  shows "generated var_name data
           = ''#include <cstddef>\<newline>''
             @ ''extern const unsigned char '' @ var_name @ ''[] = {\<newline>''
             @ concat (map (\<lambda>i. (if i mod 12 = 0 then ''    '' else [])
                                  @ str (unat (data ! i))
                                  @ (if Suc i = length data then [] else '','')
                                  @ (if i mod 12 = 11 then ''\<newline>'' else '' ''))
                           [0..<length data])
             @ ''\<newline>};\<newline>''
             @ ''extern const std::size_t '' @ var_name @ ''_len = '' @ str (length data) @ '';''
             @ ''\<newline>''
       \<and> CHR ''\<newline>'' \<notin> set (''extern const std::size_t '' @ var_name @ ''_len = ''
                                   @ str (length data) @ '';'')"
proof -
  have "map (cell (length data)) (enumerate 0 data)
      = map (\<lambda>i. (if i mod 12 = 0 then ''    '' else [])
                    @ str (unat (data ! i))
                    @ (if Suc i = length data then [] else '','')
                    @ (if i mod 12 = 11 then ''\<newline>'' else '' ''))
            [0..<length data]"
    by (simp add: enumerate_nth cell_def indent_before_def separator_after_def comp_def)
  then have "generated var_name data
           = ''#include <cstddef>\<newline>''
             @ ''extern const unsigned char '' @ var_name @ ''[] = {\<newline>''
             @ concat (map (\<lambda>i. (if i mod 12 = 0 then ''    '' else [])
                                  @ str (unat (data ! i))
                                  @ (if Suc i = length data then [] else '','')
                                  @ (if i mod 12 = 11 then ''\<newline>'' else '' ''))
                           [0..<length data])
             @ ''\<newline>};\<newline>''
             @ ''extern const std::size_t '' @ var_name @ ''_len = '' @ str (length data) @ '';''
             @ ''\<newline>''"
    by (simp add: generated_layout)
  moreover have "CHR ''\<newline>'' \<notin> set (''extern const std::size_t '' @ var_name @ ''_len = ''
                                   @ str (length data) @ '';'')"
    using assms by (simp add: str_no_newline)
  ultimately show ?thesis by (rule conjI)
qed

theorem formatting_contract_witness:
  "CHR ''\<newline>'' \<notin> set ''foo''
   \<and> generated ''foo'' [7, 200]
       = ''#include <cstddef>\<newline>extern const unsigned char foo[] = {\<newline>''
         @ ''    7, 200 \<newline>};\<newline>extern const std::size_t foo_len = 2;\<newline>''"
proof -
  have h: "CHR ''\<newline>'' \<notin> set ''foo''" by simp
  have s: "str 7 = ''7''" "str 200 = ''200''" "str (Suc (Suc 0)) = ''2''" by code_simp+
  show ?thesis using h formatting_contract [OF h, of "[7, 200]"]
    by (simp add: s upt_rec [of 0] upt_rec [of 1])
qed

subsection \<open>The fourteen-byte scenario\<close>

text \<open>
  Claim C4. For the fourteen bytes 0 to 13 and the symbol name \<open>foo\<close> the declaration has
  exactly two lines of values, the first with the twelve values 0 to 11, each followed by
  a comma, the second with \<open>12, 13\<close> (after the indentation and before a closing space),
  and the text ends with the line declaring \<open>foo_len\<close> as 14.
\<close>

theorem scenario_foo_14:
  "generated ''foo'' [0, 1, 2, 3, 4, 5, 6, 7, 8, 9, 10, 11, 12, 13]
     = ''#include <cstddef>\<newline>''
       @ ''extern const unsigned char foo[] = {\<newline>''
       @ ''    0, 1, 2, 3, 4, 5, 6, 7, 8, 9, 10, 11,\<newline>''
       @ ''    12, 13 \<newline>''
       @ ''};\<newline>''
       @ ''extern const std::size_t foo_len = 14;\<newline>''"
  by code_simp

subsection \<open>Empty input\<close>

text \<open>
  Claim C5. For the empty input the array declaration has nothing but two newlines between
  its braces, so the initializer list holds no value, and the size constant is declared
  with value 0.
\<close>

theorem empty_input:
  "generated var_name []
     = ''#include <cstddef>\<newline>'' @ ''extern const unsigned char '' @ var_name @ ''[] = {''
       @ ''\<newline>\<newline>'' @ ''};\<newline>''
       @ ''extern const std::size_t '' @ var_name @ ''_len = 0;\<newline>''
   \<and> decimal_literals ''\<newline>\<newline>'' = []"
  by (simp add: generated_layout str_0 decimal_literals_def
      not_digit_layout)

subsection \<open>Argument and input errors\<close>

text \<open>
  Claim C6. With fewer than three positional arguments (the arguments after the script's
  name) the script prints the usage line to the error stream and exits with status 2; it
  opens no file and writes nothing, and the file system is as it was.
\<close>

theorem too_few_arguments:
  assumes "length (tl argv) < 3"
  shows "outcome (main argv w) = Exited 2 \<and> err_stream (main argv w) = usage
       \<and> opened (main argv w) = [] \<and> written (main argv w) = [] \<and> after (main argv w) = w"
proof -
  from assms have "length argv < 4" by (cases argv) simp_all
  then show ?thesis by (simp add: main_def)
qed

theorem too_few_arguments_witness:
  "length (tl [''embed_bin.py'', ''in.bin'', ''foo'']) < 3
   \<and> outcome (main [''embed_bin.py'', ''in.bin'', ''foo''] sample_world) = Exited 2
   \<and> err_stream (main [''embed_bin.py'', ''in.bin'', ''foo''] sample_world) = usage
   \<and> after (main [''embed_bin.py'', ''in.bin'', ''foo''] sample_world) = sample_world"
proof -
  have h: "length (tl [''embed_bin.py'', ''in.bin'', ''foo'']) < 3" by simp
  show ?thesis using h too_few_arguments [OF h, of sample_world] by simp
qed

text \<open>
  Claim C7. When the three arguments are given and the input path cannot be opened for
  reading, the run ends with the error of that \<open>open\<close>; the only file opened is the input
  path in reading mode, so the output path is never opened, and the file system is as it
  was: nothing is created or truncated.
\<close>

theorem unreadable_input:
  assumes "3 \<le> length (tl argv)" and "open_rb w (argv ! 1) = Inl e"
  shows "outcome (main argv w) = Uncaught e \<and> opened (main argv w) = [(argv ! 1, RB)]
       \<and> written (main argv w) = [] \<and> after (main argv w) = w"
proof -
  from assms(1) have "\<not> length argv < 4" by (cases argv) simp_all
  with assms(2) show ?thesis by (simp add: main_def)
qed

theorem unreadable_input_witness:
  "3 \<le> length (tl [''embed_bin.py'', ''locked.bin'', ''foo'', ''out.cpp''])
   \<and> open_rb sample_world ([''embed_bin.py'', ''locked.bin'', ''foo'', ''out.cpp''] ! 1)
        = Inl PermissionError
   \<and> outcome (main [''embed_bin.py'', ''locked.bin'', ''foo'', ''out.cpp''] sample_world)
        = Uncaught PermissionError
   \<and> after (main [''embed_bin.py'', ''locked.bin'', ''foo'', ''out.cpp''] sample_world)
        = sample_world"
proof -
  let ?argv = "[''embed_bin.py'', ''locked.bin'', ''foo'', ''out.cpp'']"
  have h1: "3 \<le> length (tl ?argv)" by simp
  have h2: "open_rb sample_world (?argv ! 1) = Inl PermissionError"
    by (simp add: open_rb_def sample_world_def)
  show ?thesis using h1 h2 unreadable_input [OF h1 h2] by simp
qed

subsection \<open>Determinism\<close>

text \<open>
  Claim C8. The generated text depends on the input bytes and the symbol name only: two
  successful runs that read the same bytes and are given the same symbol name write the
  same strings in the same order and leave the same bytes in their output files, whatever
  the paths, the other arguments and the rest of the file system are.
\<close>

theorem deterministic_output:
  assumes "outcome (main argv1 w1) = Exited 0" and "outcome (main argv2 w2) = Exited 0"
    and "argv1 ! 2 = argv2 ! 2" and "open_rb w1 (argv1 ! 1) = open_rb w2 (argv2 ! 1)"
  shows "written (main argv1 w1) = written (main argv2 w2)
       \<and> file_bytes (after (main argv1 w1)) (argv1 ! 3)
           = file_bytes (after (main argv2 w2)) (argv2 ! 3)"
proof -
  from main_success [OF assms(1)] obtain d1 where
    r1: "open_rb w1 (argv1 ! 1) = Inr d1"
    and o1: "written (main argv1 w1) = emit (argv1 ! 2) d1 []"
    and b1: "file_bytes (after (main argv1 w1)) (argv1 ! 3)
               = Some (encode (generated (argv1 ! 2) d1))"
    by blast
  from main_success [OF assms(2)] obtain d2 where
    r2: "open_rb w2 (argv2 ! 1) = Inr d2"
    and o2: "written (main argv2 w2) = emit (argv2 ! 2) d2 []"
    and b2: "file_bytes (after (main argv2 w2)) (argv2 ! 3)
               = Some (encode (generated (argv2 ! 2) d2))"
    by blast
  from r1 r2 assms(4) have "d1 = d2" by simp
  with o1 o2 b1 b2 assms(3) show ?thesis by simp
qed

theorem deterministic_output_witness:
  "outcome (main [''embed_bin.py'', ''in.bin'', ''foo'', ''out.cpp''] sample_world) = Exited 0
   \<and> outcome (main [''embed_bin.py'', ''in.bin'', ''foo'', ''out.cpp'']
        (after (main [''embed_bin.py'', ''in.bin'', ''foo'', ''out.cpp''] sample_world))) = Exited 0
   \<and> file_bytes (after (main [''embed_bin.py'', ''in.bin'', ''foo'', ''out.cpp''] sample_world))
        ''out.cpp''
       = file_bytes (after (main [''embed_bin.py'', ''in.bin'', ''foo'', ''out.cpp'']
          (after (main [''embed_bin.py'', ''in.bin'', ''foo'', ''out.cpp''] sample_world))))
        ''out.cpp''"
proof -
  let ?argv = "[''embed_bin.py'', ''in.bin'', ''foo'', ''out.cpp'']"
  let ?w = "after (main ?argv sample_world)"
  have w: "?w = \<lparr>nodes = (nodes sample_world)(''out.cpp'' \<mapsto>
                 File True True (encode (generated ''foo'' [0, 255, 13]))),
               creatable = (\<lambda>p. True)\<rparr>"
    by (simp add: main_def sample_world_def open_rb_def open_w_def close_def Let_def
        generated_def)
  have h1: "outcome (main ?argv sample_world) = Exited 0"
    by (simp add: main_def sample_world_def open_rb_def open_w_def Let_def)
  have h2: "outcome (main ?argv ?w) = Exited 0"
    unfolding w by (simp add: main_def sample_world_def open_rb_def open_w_def Let_def)
  have h3: "?argv ! 2 = ?argv ! 2" by simp
  have h4: "open_rb sample_world (?argv ! 1) = open_rb ?w (?argv ! 1)"
    unfolding w by (simp add: sample_world_def open_rb_def)
  from deterministic_output [OF h1 h2 h3 h4]
  have "file_bytes (after (main ?argv sample_world)) ''out.cpp''
      = file_bytes (after (main ?argv ?w)) ''out.cpp''"
    by simp
  with h1 h2 show ?thesis by blast
qed

subsection \<open>Extra arguments\<close>

text \<open>
  Claim C10. With more than three positional arguments the run is the run on the first
  three: the extra arguments are ignored, no usage message is printed and the status is
  not 2.
\<close>

theorem extra_arguments_ignored:
  assumes "3 < length (tl argv)"
  shows "main argv w = main (take 4 argv) w \<and> outcome (main argv w) \<noteq> Exited 2
       \<and> err_stream (main argv w) = []"
proof -
  from assms have len: "4 < length argv" by (cases argv) simp_all
  then have "main argv w = main (take 4 argv) w"
    by (simp add: main_def)
  moreover from len have "outcome (main argv w) \<noteq> Exited 2 \<and> err_stream (main argv w) = []"
    by (simp add: main_def Let_def split: sum.split)
  ultimately show ?thesis by simp
qed

theorem extra_arguments_ignored_witness:
  "3 < length (tl [''embed_bin.py'', ''in.bin'', ''foo'', ''out.cpp'', ''extra''])
   \<and> (main [''embed_bin.py'', ''in.bin'', ''foo'', ''out.cpp'', ''extra''] sample_world
         = main [''embed_bin.py'', ''in.bin'', ''foo'', ''out.cpp''] sample_world
      \<and> outcome (main [''embed_bin.py'', ''in.bin'', ''foo'', ''out.cpp'', ''extra''] sample_world)
         \<noteq> Exited 2
      \<and> err_stream (main [''embed_bin.py'', ''in.bin'', ''foo'', ''out.cpp'', ''extra''] sample_world)
         = [])"
proof -
  let ?argv = "[''embed_bin.py'', ''in.bin'', ''foo'', ''out.cpp'', ''extra'']"
  have h: "3 < length (tl ?argv)" by simp
  have t: "take 4 ?argv = [''embed_bin.py'', ''in.bin'', ''foo'', ''out.cpp'']" by simp
  note r = extra_arguments_ignored [OF h, of sample_world, unfolded t]
  show ?thesis using h r by (rule conjI)
qed

end
